theory Spec2Isabelle
  imports Complex_Main "HOL-Library.Sublist"
begin

section \<open>Rice irrigation module of LISFLOOD (riceirrigation.py)\<close>

text \<open>
  The module works on numpy arrays that all range over the same fixed set of active
  cells (the mask). An array is modelled by the function from the cell index to the
  value held there, so that every element-wise numpy operation is a pointwise operation
  and two arrays always have the same shape. A vegetation- or landuse-indexed array
  (\<open>X.values[i]\<close>) is a function from that index to an array.

  numpy floats are modelled by real numbers: rounding is left out, and the sums and
  products of the inputs are taken exactly. The quotient by the soil fraction is where a
  float64 leaves the numbers, and it is modelled as such: a zero divisor gives inf or nan
  (\<open>NonFinite\<close>: the sign of a float zero is not in the model), and a quotient beyond
  the largest float64 overflows to \<open>PosInf\<close> or \<open>NegInf\<close>. The upper-zone
  store \<open>UZ\<close> that receives such values holds \<open>npval\<close> too.
\<close>

type_synonym 'a grid = "nat \<Rightarrow> 'a"

datatype npval = Finite real | PosInf | NegInf | NonFinite

datatype error = LisfloodError string

subsection \<open>numpy and mask helpers\<close>

definition in_zero :: "real grid" where
  \<comment> \<open>\<open>maskinfo.in_zero()\<close>: the all-zero array over the mask\<close>
  "in_zero = (\<lambda>c. 0)"

definition np_where :: "bool grid \<Rightarrow> 'a grid \<Rightarrow> 'a grid \<Rightarrow> 'a grid" where
  \<comment> \<open>\<open>np.where(cond, a, b)\<close>: both arrays are already computed, one entry is chosen per cell\<close>
  "np_where cond a b = (\<lambda>c. if cond c then a c else b c)"

definition np_maximum :: "real grid \<Rightarrow> real \<Rightarrow> real grid" where
  \<comment> \<open>\<open>np.maximum(a, x)\<close> with a scalar \<open>x\<close>\<close>
  "np_maximum a x = (\<lambda>c. max (a c) x)"

definition float_max :: real where
  \<comment> \<open>the largest finite float64, \<open>(2 - 2^-52) * 2^1023\<close>\<close>
  "float_max = (2 ^ 53 - 1) * 2 ^ 971"

definition float_div :: "real \<Rightarrow> real \<Rightarrow> npval" where
  \<comment> \<open>the float64 quotient of two numbers: numpy warns and does not raise\<close>
  "float_div a b =
     (if b = 0 then NonFinite
      else if float_max < a / b then PosInf
      else if a / b < - float_max then NegInf
      else Finite (a / b))"

definition np_divide :: "real grid \<Rightarrow> real grid \<Rightarrow> npval grid" where
  \<comment> \<open>\<open>a / b\<close> on float arrays, computed in every cell\<close>
  "np_divide a b = (\<lambda>c. float_div (a c) (b c))"

fun np_add :: "npval \<Rightarrow> npval \<Rightarrow> npval" where
  "np_add (Finite x) (Finite y) = Finite (x + y)"
| "np_add NonFinite _ = NonFinite"
| "np_add _ NonFinite = NonFinite"
| "np_add PosInf NegInf = NonFinite"
| "np_add NegInf PosInf = NonFinite"
| "np_add PosInf _ = PosInf"
| "np_add _ PosInf = PosInf"
| "np_add NegInf _ = NegInf"
| "np_add _ NegInf = NegInf"

subsection \<open>Settings and model variables\<close>

record options =
  riceIrrigation :: bool
  wateruse :: bool

text \<open>
  \<open>self.var\<close>: the variables of the surrounding model that the module reads and writes.
  \<open>get_landuse_and_indexes_from_vegetation_GLOBAL\<close> is a method of \<open>self.var\<close> defined
  outside this module; it is a field here, so every result holds for any such lookup.
\<close>

record var =
  PaddyRiceWaterAbstractionFromSurfaceWaterM3 :: "real grid"
  RiceFlooding :: "real grid"
  RicePercolation :: "real grid"
  RicePlantingDay1 :: "real grid"
  RiceHarvestDay1 :: "real grid"
  RicePlantingDay2 :: "real grid"
  RiceHarvestDay2 :: "real grid"
  CalendarDay :: "real grid"
  WS1 :: "nat \<Rightarrow> real grid"
  W1 :: "nat \<Rightarrow> real grid"
  WFC1 :: "nat \<Rightarrow> real grid"
  ESAct :: "nat \<Rightarrow> real grid"
  Ta :: "nat \<Rightarrow> real grid"
  EWRef :: "real grid"
  RiceFraction :: "real grid"
  SoilFraction :: "nat \<Rightarrow> real grid"
  MMtoM3 :: "real grid"
  M3toMM :: "real grid"
  DtDay :: real
  UZ :: "nat \<Rightarrow> npval grid"
  get_landuse_and_indexes_from_vegetation_GLOBAL :: "string \<Rightarrow> nat \<times> nat \<times> nat"

subsection \<open>initial\<close>

text \<open>
  \<open>loadmap\<close> is a collaborator outside this module: it is a parameter, and it may raise.
  The state of a run is \<open>self.var\<close> together with the names passed to \<open>loadmap\<close> so far,
  in call order. A raise is the \<open>Inl\<close> of the result and carries the state reached when
  the exception left \<open>initial\<close>.
\<close>

type_synonym loader = "string \<Rightarrow> error + real grid"

type_synonym run_state = "var \<times> string list"

definition load_into ::
  "loader \<Rightarrow> string \<Rightarrow> (real grid \<Rightarrow> var \<Rightarrow> var) \<Rightarrow> run_state \<Rightarrow> (error \<times> run_state) + run_state" where
  \<comment> \<open>\<open>self.var.X = loadmap(name)\<close>\<close>
  "load_into loadmap name assign s =
     (case s of (v, loaded) \<Rightarrow>
        (case loadmap name of
           Inl e \<Rightarrow> Inl (e, (v, loaded @ [name]))
         | Inr m \<Rightarrow> Inr (assign m v, loaded @ [name])))"

definition and_then ::
  "(error \<times> run_state) + run_state \<Rightarrow> (run_state \<Rightarrow> (error \<times> run_state) + run_state)
     \<Rightarrow> (error \<times> run_state) + run_state" where
  \<comment> \<open>the next statement runs only when the one before it did not raise\<close>
  "and_then r f = (case r of Inl e \<Rightarrow> Inl e | Inr s \<Rightarrow> f s)"

definition msg :: string where
  "msg = ''riceIrrigation module ON MUST HAVE wateruse option ON in setting file''"

definition initial :: "options \<Rightarrow> loader \<Rightarrow> run_state \<Rightarrow> (error \<times> run_state) + run_state" where
  "initial option loadmap s =
     (case s of (v, loaded) \<Rightarrow>
        (let s0 = (v\<lparr>PaddyRiceWaterAbstractionFromSurfaceWaterM3 := in_zero\<rparr>, loaded) in
         if riceIrrigation option then
           if \<not> wateruse option then Inl (LisfloodError msg, s0)
           else
             and_then (and_then (and_then (and_then (and_then
               (load_into loadmap ''RiceFlooding'' (\<lambda>m v. v\<lparr>RiceFlooding := m\<rparr>) s0)
               (load_into loadmap ''RicePercolation'' (\<lambda>m v. v\<lparr>RicePercolation := m\<rparr>)))
               (load_into loadmap ''RicePlantingDay1'' (\<lambda>m v. v\<lparr>RicePlantingDay1 := m\<rparr>)))
               (load_into loadmap ''RiceHarvestDay1'' (\<lambda>m v. v\<lparr>RiceHarvestDay1 := m\<rparr>)))
               (load_into loadmap ''RicePlantingDay2'' (\<lambda>m v. v\<lparr>RicePlantingDay2 := m\<rparr>)))
               (load_into loadmap ''RiceHarvestDay2'' (\<lambda>m v. v\<lparr>RiceHarvestDay2 := m\<rparr>))
         else Inr s0))"

subsection \<open>dynamic\<close>

text \<open>
  The local arrays of \<open>dynamic\<close>, in the order of the source. \<open>iveg\<close> and \<open>ilanduse\<close>
  are the two indices that the vegetation lookup returns.
\<close>

definition RiceSoilSaturationDemandM3 :: "var \<Rightarrow> nat \<Rightarrow> nat \<Rightarrow> real grid" where
  "RiceSoilSaturationDemandM3 v iveg ilanduse =
     (\<lambda>c. (WS1 v ilanduse c - W1 v iveg c) * RiceFraction v c * MMtoM3 v c * DtDay v)"

definition wrap_day :: "real grid \<Rightarrow> real \<Rightarrow> real grid" where
  \<comment> \<open>\<open>x = day - n; x = np.where(x < 0, 365 + x, x)\<close>, written four times in the source\<close>
  "wrap_day day n =
     (let x = (\<lambda>c. day c - n) in np_where (\<lambda>c. x c < 0) (\<lambda>c. 365 + x c) x)"

definition pl_20 :: "var \<Rightarrow> real grid" where
  "pl_20 v = wrap_day (RicePlantingDay1 v) 20"

definition pl_10 :: "var \<Rightarrow> real grid" where
  "pl_10 v = wrap_day (RicePlantingDay1 v) 10"

definition ha_20 :: "var \<Rightarrow> real grid" where
  "ha_20 v = wrap_day (RiceHarvestDay1 v) 20"

definition ha_10 :: "var \<Rightarrow> real grid" where
  "ha_10 v = wrap_day (RiceHarvestDay1 v) 10"

definition RiceSoilSaturationM3 :: "var \<Rightarrow> nat \<Rightarrow> nat \<Rightarrow> real grid" where
  "RiceSoilSaturationM3 v iveg ilanduse =
     np_where (\<lambda>c. CalendarDay v c \<ge> pl_20 v c \<and> CalendarDay v c < pl_10 v c)
       (\<lambda>c. 0.1 * RiceSoilSaturationDemandM3 v iveg ilanduse c) in_zero"

definition RiceEva :: "var \<Rightarrow> nat \<Rightarrow> real grid" where
  "RiceEva v iveg = np_maximum (\<lambda>c. EWRef v c - (ESAct v iveg c + Ta v iveg c)) 0"

definition RiceEvaporationDemandM3 :: "var \<Rightarrow> nat \<Rightarrow> real grid" where
  "RiceEvaporationDemandM3 v iveg = (\<lambda>c. RiceEva v iveg c * RiceFraction v c * MMtoM3 v c)"

definition RiceFloodingDemandM3 :: "var \<Rightarrow> real grid" where
  "RiceFloodingDemandM3 v = (\<lambda>c. RiceFlooding v c * RiceFraction v c * MMtoM3 v c * DtDay v)"

definition RiceFloodingM3 :: "var \<Rightarrow> nat \<Rightarrow> real grid" where
  "RiceFloodingM3 v iveg =
     np_where (\<lambda>c. CalendarDay v c \<ge> pl_10 v c \<and> CalendarDay v c < RicePlantingDay1 v c)
       (\<lambda>c. RiceFloodingDemandM3 v c + RiceEvaporationDemandM3 v iveg c) in_zero"

definition RiceEvaporationM3 :: "var \<Rightarrow> nat \<Rightarrow> real grid" where
  "RiceEvaporationM3 v iveg =
     np_where (\<lambda>c. CalendarDay v c \<ge> RicePlantingDay1 v c \<and> CalendarDay v c < ha_20 v c)
       (RiceEvaporationDemandM3 v iveg) in_zero"

definition RicePercolationDemandM3 :: "var \<Rightarrow> real grid" where
  "RicePercolationDemandM3 v =
     (\<lambda>c. RicePercolation v c * RiceFraction v c * MMtoM3 v c * DtDay v)"

definition RicePercolationM3 :: "var \<Rightarrow> real grid" where
  "RicePercolationM3 v =
     np_where (\<lambda>c. CalendarDay v c \<ge> RicePlantingDay1 v c \<and> CalendarDay v c < ha_20 v c)
       (RicePercolationDemandM3 v) in_zero"

definition RiceDrainageDemandM3 :: "var \<Rightarrow> nat \<Rightarrow> real grid" where
  "RiceDrainageDemandM3 v ilanduse =
     (\<lambda>c. (WS1 v ilanduse c - WFC1 v ilanduse c) * RiceFraction v c * MMtoM3 v c * DtDay v)"

definition RiceDrainageM3 :: "var \<Rightarrow> nat \<Rightarrow> real grid" where
  "RiceDrainageM3 v ilanduse =
     np_where (\<lambda>c. CalendarDay v c \<ge> ha_10 v c \<and> CalendarDay v c < RiceHarvestDay1 v c)
       (\<lambda>c. 0.1 * RiceDrainageDemandM3 v ilanduse c) in_zero"

definition UZ_increment :: "var \<Rightarrow> nat \<Rightarrow> nat \<Rightarrow> npval grid" where
  \<comment> \<open>the right-hand side of \<open>self.var.UZ.values[iveg][:] += np.where(...)\<close>\<close>
  "UZ_increment v iveg ilanduse =
     np_where (\<lambda>c. SoilFraction v iveg c > 0.0)
       (np_divide (\<lambda>c. (RiceDrainageM3 v ilanduse c + RicePercolationM3 v c) * M3toMM v c)
                  (SoilFraction v iveg))
       (\<lambda>c. Finite 0.0)"

text \<open>
  The assignment to the output reads and writes no field that the lines after it read,
  so both writes are made from the values that the locals have on entry.
\<close>

definition dynamic :: "options \<Rightarrow> var \<Rightarrow> var" where
  "dynamic option v =
     (if riceIrrigation option then
        (let veg = ''Rainfed_prescribed'';
             (iveg, ilanduse, _) = get_landuse_and_indexes_from_vegetation_GLOBAL v veg
         in v\<lparr>PaddyRiceWaterAbstractionFromSurfaceWaterM3 :=
                 (\<lambda>c. RiceSoilSaturationM3 v iveg ilanduse c + RiceFloodingM3 v iveg c
                       + RiceEvaporationM3 v iveg c + RicePercolationM3 v c),
               UZ := (UZ v)(iveg := (\<lambda>c. np_add (UZ v iveg c) (UZ_increment v iveg ilanduse c)))\<rparr>)
      else v)"

subsection \<open>The wording of the specification\<close>

text \<open>
  The day wrap, the four calendar markers and the terms of the phase table, written from
  the words of the specification (sections 4.2 and 4.3) and from nothing of the source,
  to be compared with what \<open>dynamic\<close> computes.
\<close>

definition spec_wrap :: "real \<Rightarrow> real \<Rightarrow> real" where
  \<comment> \<open>\<open>day - offset\<close> if that value is at least 0, else \<open>365 + (day - offset)\<close>\<close>
  "spec_wrap day offset = (if day - offset \<ge> 0 then day - offset else 365 + (day - offset))"

definition spec_pl20 :: "var \<Rightarrow> nat \<Rightarrow> real" where
  "spec_pl20 v c = spec_wrap (RicePlantingDay1 v c) 20"

definition spec_pl10 :: "var \<Rightarrow> nat \<Rightarrow> real" where
  "spec_pl10 v c = spec_wrap (RicePlantingDay1 v c) 10"

definition spec_ha20 :: "var \<Rightarrow> nat \<Rightarrow> real" where
  "spec_ha20 v c = spec_wrap (RiceHarvestDay1 v c) 20"

definition spec_ha10 :: "var \<Rightarrow> nat \<Rightarrow> real" where
  "spec_ha10 v c = spec_wrap (RiceHarvestDay1 v c) 10"

definition spec_in_window :: "real \<Rightarrow> real \<Rightarrow> real \<Rightarrow> bool" where
  \<comment> \<open>the half-open day window \<open>[start, end)\<close>\<close>
  "spec_in_window day start end = (start \<le> day \<and> day < end)"

definition spec_evapDemand :: "var \<Rightarrow> nat \<Rightarrow> nat \<Rightarrow> real" where
  "spec_evapDemand v iveg c =
     max (EWRef v c - (ESAct v iveg c + Ta v iveg c)) 0 * RiceFraction v c * MMtoM3 v c"

definition spec_saturationTerm :: "var \<Rightarrow> nat \<Rightarrow> nat \<Rightarrow> nat \<Rightarrow> real" where
  "spec_saturationTerm v iveg ilanduse c =
     (if spec_in_window (CalendarDay v c) (spec_pl20 v c) (spec_pl10 v c)
      then 0.1 * (WS1 v ilanduse c - W1 v iveg c) * RiceFraction v c * MMtoM3 v c * DtDay v
      else 0)"

definition spec_floodingTerm :: "var \<Rightarrow> nat \<Rightarrow> nat \<Rightarrow> real" where
  "spec_floodingTerm v iveg c =
     (if spec_in_window (CalendarDay v c) (spec_pl10 v c) (RicePlantingDay1 v c)
      then (RiceFlooding v c * RiceFraction v c * MMtoM3 v c * DtDay v) + spec_evapDemand v iveg c
      else 0)"

definition spec_evaporationTerm :: "var \<Rightarrow> nat \<Rightarrow> nat \<Rightarrow> real" where
  "spec_evaporationTerm v iveg c =
     (if spec_in_window (CalendarDay v c) (RicePlantingDay1 v c) (spec_ha20 v c)
      then spec_evapDemand v iveg c else 0)"

definition spec_percolationTerm :: "var \<Rightarrow> nat \<Rightarrow> real" where
  "spec_percolationTerm v c =
     (if spec_in_window (CalendarDay v c) (RicePlantingDay1 v c) (spec_ha20 v c)
      then RicePercolation v c * RiceFraction v c * MMtoM3 v c * DtDay v else 0)"

definition spec_drainageTerm :: "var \<Rightarrow> nat \<Rightarrow> nat \<Rightarrow> real" where
  "spec_drainageTerm v ilanduse c =
     (if spec_in_window (CalendarDay v c) (spec_ha10 v c) (RiceHarvestDay1 v c)
      then 0.1 * (WS1 v ilanduse c - WFC1 v ilanduse c) * RiceFraction v c * MMtoM3 v c * DtDay v
      else 0)"


subsection \<open>Concrete inputs\<close>

definition np_full :: "real \<Rightarrow> real grid" where
  \<comment> \<open>the array holding \<open>x\<close> in every cell\<close>
  "np_full x = (\<lambda>c. x)"

definition veg_full :: "real \<Rightarrow> nat \<Rightarrow> real grid" where
  "veg_full x = (\<lambda>i c. x)"

definition on :: options where
  "on = \<lparr>riceIrrigation = True, wateruse = True\<rparr>"

definition off :: options where
  "off = \<lparr>riceIrrigation = False, wateruse = True\<rparr>"

definition rice_without_wateruse :: options where
  "rice_without_wateruse = \<lparr>riceIrrigation = True, wateruse = False\<rparr>"

text \<open>
  The scenario of the specification's section 8 (rice fraction 0.5, 1000 m3 per mm, daily
  step, percolation 2 mm/day, saturation 300 mm, moisture 250 mm), at a given calendar,
  planting and harvest day, with a field capacity of 260 mm, a soil fraction of 0.5 and
  7 mm in the upper zone; the vegetation lookup gives index 0.
\<close>

definition scenario :: "real \<Rightarrow> real \<Rightarrow> real \<Rightarrow> var" where
  "scenario day planting harvest =
     \<lparr>PaddyRiceWaterAbstractionFromSurfaceWaterM3 = np_full 0,
      RiceFlooding = np_full 10,
      RicePercolation = np_full 2,
      RicePlantingDay1 = np_full planting,
      RiceHarvestDay1 = np_full harvest,
      RicePlantingDay2 = np_full 0,
      RiceHarvestDay2 = np_full 0,
      CalendarDay = np_full day,
      WS1 = veg_full 300,
      W1 = veg_full 250,
      WFC1 = veg_full 260,
      ESAct = veg_full 1,
      Ta = veg_full 1,
      EWRef = np_full 5,
      RiceFraction = np_full 0.5,
      SoilFraction = veg_full 0.5,
      MMtoM3 = np_full 1000,
      M3toMM = np_full 0.001,
      DtDay = 1,
      UZ = (\<lambda>i c. Finite 7),
      get_landuse_and_indexes_from_vegetation_GLOBAL = (\<lambda>veg. (0, 0, 0))\<rparr>"

definition tiny :: real where
  \<comment> \<open>a positive soil fraction below the smallest normal float64\<close>
  "tiny = 1 / 10 ^ 310"

definition all_maps :: loader where
  \<comment> \<open>a \<open>loadmap\<close> that finds every map\<close>
  "all_maps name = Inr (np_full 1)"

section \<open>Properties\<close>

lemmas phase_defs =
  RiceSoilSaturationM3_def RiceSoilSaturationDemandM3_def RiceFloodingM3_def
  RiceFloodingDemandM3_def RiceEvaporationM3_def RiceEvaporationDemandM3_def RiceEva_def
  RicePercolationM3_def RicePercolationDemandM3_def RiceDrainageM3_def RiceDrainageDemandM3_def
  np_where_def np_maximum_def in_zero_def

lemmas marker_defs = pl_20_def pl_10_def ha_20_def ha_10_def wrap_day_def np_where_def

lemmas spec_defs =
  spec_saturationTerm_def spec_floodingTerm_def spec_evaporationTerm_def
  spec_percolationTerm_def spec_drainageTerm_def spec_evapDemand_def spec_in_window_def
  spec_pl20_def spec_pl10_def spec_ha20_def spec_ha10_def spec_wrap_def

lemmas scenario_defs =
  scenario_def np_full_def veg_full_def on_def off_def rice_without_wateruse_def

subsection \<open>What one step writes\<close>

lemma dynamic_output:
  assumes "riceIrrigation option"
    and "get_landuse_and_indexes_from_vegetation_GLOBAL v ''Rainfed_prescribed'' = (iveg, ilanduse, k)"
  shows "PaddyRiceWaterAbstractionFromSurfaceWaterM3 (dynamic option v) c =
           RiceSoilSaturationM3 v iveg ilanduse c + RiceFloodingM3 v iveg c
           + RiceEvaporationM3 v iveg c + RicePercolationM3 v c"
  using assms by (simp add: dynamic_def)

lemma dynamic_UZ:
  assumes "riceIrrigation option"
    and "get_landuse_and_indexes_from_vegetation_GLOBAL v ''Rainfed_prescribed'' = (iveg, ilanduse, k)"
  shows "UZ (dynamic option v) iveg c = np_add (UZ v iveg c) (UZ_increment v iveg ilanduse c)"
  using assms by (simp add: dynamic_def)

lemma dynamic_UZ_other_vegetation:
  assumes "get_landuse_and_indexes_from_vegetation_GLOBAL v ''Rainfed_prescribed'' = (iveg, ilanduse, k)"
    and "i \<noteq> iveg"
  shows "UZ (dynamic option v) i = UZ v i"
  using assms by (simp add: dynamic_def)

lemma dynamic_off: "\<not> riceIrrigation option \<Longrightarrow> dynamic option v = v"
  by (simp add: dynamic_def)

lemma np_add_zero: "np_add u (Finite 0) = u"
  by (cases u) simp_all

lemma float_div_Finite:
  assumes "b \<noteq> 0" and "- float_max \<le> a / b" and "a / b \<le> float_max"
  shows "float_div a b = Finite (a / b)"
  using assms by (simp add: float_div_def)

lemma float_max_bounds: "10 ^ 6 \<le> float_max" "float_max < 10 ^ 310"
  by (simp_all add: float_max_def)

lemma float_div_moderate:
  assumes "b \<noteq> 0" and "- (10 ^ 6) \<le> a / b" and "a / b \<le> 10 ^ 6"
  shows "float_div a b = Finite (a / b)"
  using assms float_max_bounds(1) by (intro float_div_Finite) linarith+

lemma float_div_overflow:
  assumes "b \<noteq> 0" and "10 ^ 310 \<le> a / b"
  shows "float_div a b = PosInf"
  using assms float_max_bounds(2) by (simp add: float_div_def)

lemma tiny_pos: "0 < tiny" "tiny \<noteq> 0"
  by (simp_all add: tiny_def)

lemma float_div_tiny: "float_div 1 tiny = PosInf"
  by (rule float_div_overflow) (simp_all add: tiny_def)

lemma float_div_nonneg:
  assumes "0 \<le> a" and "0 < b"
  shows "(\<exists>x. float_div a b = Finite x \<and> 0 \<le> x) \<or> float_div a b = PosInf"
proof -
  have "0 \<le> a / b" using assms by simp
  moreover have "0 < float_max" by (simp add: float_max_def)
  ultimately have "\<not> a / b < - float_max" by linarith
  with \<open>0 \<le> a / b\<close> assms show ?thesis by (simp add: float_div_def)
qed

lemma np_add_Finite_nonneg:
  assumes "(\<exists>x. i = Finite x \<and> 0 \<le> x) \<or> i = PosInf"
  shows "(\<exists>u'. np_add (Finite u) i = Finite u' \<and> u \<le> u') \<or> np_add (Finite u) i = PosInf"
  using assms by auto

subsection \<open>The day wrap is the remainder modulo 365\<close>

lemma wrap_day_mod:
  assumes "1 \<le> d" and "d \<le> 365" and "n \<in> {10, 20}" and "day c = real_of_int d"
  shows "wrap_day day (real_of_int n) c = real_of_int ((d - n) mod 365)"
proof (cases "n \<le> d")
  case True
  with assms have "(d - n) mod 365 = d - n" by (intro mod_pos_pos_trivial) auto
  with True assms show ?thesis by (auto simp: wrap_day_def np_where_def Let_def)
next
  case False
  have "(d - n) mod 365 = (d - n + 365) mod 365" by simp
  also have "\<dots> = d - n + 365" using False assms by (intro mod_pos_pos_trivial) auto
  finally show ?thesis using False assms by (auto simp: wrap_day_def np_where_def Let_def)
qed

subsection \<open>The markers and terms of the specification are the arrays of the source\<close>

lemma wrap_day_eq: "wrap_day day n c = spec_wrap (day c) n"
  by (simp add: wrap_day_def np_where_def spec_wrap_def)

lemma pl_20_eq: "pl_20 v c = spec_pl20 v c"
  by (simp add: pl_20_def spec_pl20_def wrap_day_eq)

lemma pl_10_eq: "pl_10 v c = spec_pl10 v c"
  by (simp add: pl_10_def spec_pl10_def wrap_day_eq)

lemma ha_20_eq: "ha_20 v c = spec_ha20 v c"
  by (simp add: ha_20_def spec_ha20_def wrap_day_eq)

lemma ha_10_eq: "ha_10 v c = spec_ha10 v c"
  by (simp add: ha_10_def spec_ha10_def wrap_day_eq)

lemmas term_defs =
  spec_saturationTerm_def spec_floodingTerm_def spec_evaporationTerm_def
  spec_percolationTerm_def spec_drainageTerm_def spec_evapDemand_def spec_in_window_def

lemma saturationTerm_eq: "spec_saturationTerm v iveg ilanduse c = RiceSoilSaturationM3 v iveg ilanduse c"
  by (simp add: term_defs phase_defs pl_20_eq pl_10_eq)

lemma floodingTerm_eq: "spec_floodingTerm v iveg c = RiceFloodingM3 v iveg c"
  by (simp add: term_defs phase_defs pl_10_eq)

lemma evaporationTerm_eq: "spec_evaporationTerm v iveg c = RiceEvaporationM3 v iveg c"
  by (simp add: term_defs phase_defs ha_20_eq)

lemma percolationTerm_eq: "spec_percolationTerm v c = RicePercolationM3 v c"
  by (simp add: term_defs phase_defs ha_20_eq)

lemma drainageTerm_eq: "spec_drainageTerm v ilanduse c = RiceDrainageM3 v ilanduse c"
  by (simp add: term_defs phase_defs ha_10_eq)

subsection \<open>Signs of the phase arrays\<close>

lemma RiceSoilSaturationM3_nonneg:
  assumes "W1 v iveg c \<le> WS1 v ilanduse c" "0 \<le> RiceFraction v c" "0 \<le> MMtoM3 v c" "0 \<le> DtDay v"
  shows "0 \<le> RiceSoilSaturationM3 v iveg ilanduse c"
  using assms
  by (simp add: RiceSoilSaturationM3_def RiceSoilSaturationDemandM3_def np_where_def in_zero_def)

lemma RiceEvaporationDemandM3_nonneg:
  assumes "0 \<le> RiceFraction v c" "0 \<le> MMtoM3 v c"
  shows "0 \<le> RiceEvaporationDemandM3 v iveg c"
  using assms by (simp add: RiceEvaporationDemandM3_def RiceEva_def np_maximum_def)

lemma RiceFloodingM3_nonneg:
  assumes "0 \<le> RiceFlooding v c" "0 \<le> RiceFraction v c" "0 \<le> MMtoM3 v c" "0 \<le> DtDay v"
  shows "0 \<le> RiceFloodingM3 v iveg c"
  using assms RiceEvaporationDemandM3_nonneg [of v c iveg]
  by (simp add: RiceFloodingM3_def RiceFloodingDemandM3_def np_where_def in_zero_def)

lemma RiceEvaporationM3_nonneg:
  assumes "0 \<le> RiceFraction v c" "0 \<le> MMtoM3 v c"
  shows "0 \<le> RiceEvaporationM3 v iveg c"
  using RiceEvaporationDemandM3_nonneg [OF assms, of iveg]
  by (simp add: RiceEvaporationM3_def np_where_def in_zero_def)

lemma RicePercolationM3_nonneg:
  assumes "0 \<le> RicePercolation v c" "0 \<le> RiceFraction v c" "0 \<le> MMtoM3 v c" "0 \<le> DtDay v"
  shows "0 \<le> RicePercolationM3 v c"
  using assms
  by (simp add: RicePercolationM3_def RicePercolationDemandM3_def np_where_def in_zero_def)

lemma RiceDrainageM3_nonneg:
  assumes "WFC1 v ilanduse c \<le> WS1 v ilanduse c" "0 \<le> RiceFraction v c" "0 \<le> MMtoM3 v c"
    "0 \<le> DtDay v"
  shows "0 \<le> RiceDrainageM3 v ilanduse c"
  using assms by (simp add: RiceDrainageM3_def RiceDrainageDemandM3_def np_where_def in_zero_def)

subsection \<open>The error message and the maps that a successful start loads\<close>

lemma msg_names_riceIrrigation: "sublist ''riceIrrigation'' msg"
  by (simp add: msg_def sublist_code)

lemma msg_names_wateruse: "sublist ''wateruse'' msg"
  by (simp add: msg_def sublist_code)

lemma initial_loads_six_maps:
  "snd (projr (initial on all_maps (v, []))) =
     [''RiceFlooding'', ''RicePercolation'', ''RicePlantingDay1'', ''RiceHarvestDay1'',
      ''RicePlantingDay2'', ''RiceHarvestDay2'']"
  by (simp add: initial_def on_def all_maps_def load_into_def and_then_def)

subsection \<open>The abstraction from surface water\<close>

text \<open>
  Claim C1. On a step with rice irrigation on, the output
  \<open>PaddyRiceWaterAbstractionFromSurfaceWaterM3\<close> is, in every cell, the sum of the four
  phase terms of the specification: saturation on \<open>[pl20, pl10)\<close>, flooding plus the
  evaporation demand on \<open>[pl10, plantingDay1)\<close>, the evaporation demand and the
  percolation on \<open>[plantingDay1, ha20)\<close>, each zero outside its window, the markers
  being the specification's wrap of the planting and harvest days. The drainage term is
  not part of it: the output is the same whatever the field capacity \<open>WFC1\<close>, which
  only the drainage term reads.
\<close>

theorem abstraction_is_sum_of_four_phase_terms:
  assumes "riceIrrigation option"
    and "get_landuse_and_indexes_from_vegetation_GLOBAL v ''Rainfed_prescribed'' = (iveg, ilanduse, k)"
  shows "PaddyRiceWaterAbstractionFromSurfaceWaterM3 (dynamic option v) c =
           spec_saturationTerm v iveg ilanduse c + spec_floodingTerm v iveg c
           + spec_evaporationTerm v iveg c + spec_percolationTerm v c
         \<and> PaddyRiceWaterAbstractionFromSurfaceWaterM3 (dynamic option (v\<lparr>WFC1 := w\<rparr>)) c
             = PaddyRiceWaterAbstractionFromSurfaceWaterM3 (dynamic option v) c"
proof -
  have "PaddyRiceWaterAbstractionFromSurfaceWaterM3 (dynamic option v) c =
          spec_saturationTerm v iveg ilanduse c + spec_floodingTerm v iveg c
          + spec_evaporationTerm v iveg c + spec_percolationTerm v c"
    by (simp add: dynamic_output [OF assms] saturationTerm_eq floodingTerm_eq
          evaporationTerm_eq percolationTerm_eq)
  moreover have "PaddyRiceWaterAbstractionFromSurfaceWaterM3 (dynamic option (v\<lparr>WFC1 := w\<rparr>)) c
                   = PaddyRiceWaterAbstractionFromSurfaceWaterM3 (dynamic option v) c"
    using assms by (simp add: dynamic_def phase_defs pl_20_def pl_10_def ha_20_def)
  ultimately show ?thesis by simp
qed

text \<open>
  The scenario of the specification with planting on day 100 and harvest on day 200. On
  day 85 only the saturation window \<open>[80, 90)\<close> is open and the output is 2500; on day
  95, in \<open>[90, 100)\<close>, it is the flooding demand 5000 plus the evaporation demand 1500;
  on day 150, in \<open>[100, 180)\<close>, the evaporation demand 1500 plus the percolation 1000;
  on day 195, in the drainage window, nothing.
\<close>

theorem abstraction_is_sum_of_four_phase_terms_witness:
  "riceIrrigation on
   \<and> get_landuse_and_indexes_from_vegetation_GLOBAL (scenario 85 100 200) ''Rainfed_prescribed''
       = (0, 0, 0)
   \<and> get_landuse_and_indexes_from_vegetation_GLOBAL (scenario 95 100 200) ''Rainfed_prescribed''
       = (0, 0, 0)
   \<and> get_landuse_and_indexes_from_vegetation_GLOBAL (scenario 150 100 200) ''Rainfed_prescribed''
       = (0, 0, 0)
   \<and> get_landuse_and_indexes_from_vegetation_GLOBAL (scenario 195 100 200) ''Rainfed_prescribed''
       = (0, 0, 0)
   \<and> PaddyRiceWaterAbstractionFromSurfaceWaterM3 (dynamic on (scenario 85 100 200)) 0 = 2500
   \<and> PaddyRiceWaterAbstractionFromSurfaceWaterM3 (dynamic on (scenario 95 100 200)) 0 = 6500
   \<and> PaddyRiceWaterAbstractionFromSurfaceWaterM3 (dynamic on (scenario 150 100 200)) 0 = 2500
   \<and> PaddyRiceWaterAbstractionFromSurfaceWaterM3 (dynamic on (scenario 195 100 200)) 0 = 0
   \<and> PaddyRiceWaterAbstractionFromSurfaceWaterM3
       (dynamic on ((scenario 85 100 200)\<lparr>WFC1 := veg_full 0\<rparr>)) 0 = 2500"
  using abstraction_is_sum_of_four_phase_terms
          [where option = on and v = "scenario 85 100 200" and iveg = 0 and ilanduse = 0
             and k = 0 and c = 0 and w = "veg_full 0"]
        abstraction_is_sum_of_four_phase_terms
          [where option = on and v = "scenario 95 100 200" and iveg = 0 and ilanduse = 0
             and k = 0 and c = 0 and w = "veg_full 0"]
        abstraction_is_sum_of_four_phase_terms
          [where option = on and v = "scenario 150 100 200" and iveg = 0 and ilanduse = 0
             and k = 0 and c = 0 and w = "veg_full 0"]
        abstraction_is_sum_of_four_phase_terms
          [where option = on and v = "scenario 195 100 200" and iveg = 0 and ilanduse = 0
             and k = 0 and c = 0 and w = "veg_full 0"]
  by (simp add: spec_defs scenario_defs)

subsection \<open>The update of the upper zone\<close>

text \<open>
  Claim C2. On a step with rice irrigation on, in a cell where the soil fraction of the
  vegetation is positive, the float quotient (drainage term + percolation term) * M3toMM /
  SoilFraction is added to the upper-zone store of that vegetation, the drainage term being
  0.1 * (WS1 - WFC1) * RiceFraction * MMtoM3 * DtDay on the window \<open>[ha10, harvestDay1)\<close>
  and the percolation term the one of the growth window; where that quotient is within
  the float range and the store holds a number, the store grows by exactly that amount.
  In a cell where the soil fraction is zero the entry keeps the value it had.
\<close>

theorem upper_zone_update:
  assumes "riceIrrigation option"
    and "get_landuse_and_indexes_from_vegetation_GLOBAL v ''Rainfed_prescribed'' = (iveg, ilanduse, k)"
  shows "(0 < SoilFraction v iveg c \<longrightarrow>
            UZ (dynamic option v) iveg c =
              np_add (UZ v iveg c)
                (float_div ((spec_drainageTerm v ilanduse c + spec_percolationTerm v c) * M3toMM v c)
                           (SoilFraction v iveg c)))
       \<and> (0 < SoilFraction v iveg c \<and> UZ v iveg c = Finite u
            \<and> \<bar>(spec_drainageTerm v ilanduse c + spec_percolationTerm v c) * M3toMM v c
                 / SoilFraction v iveg c\<bar> \<le> float_max \<longrightarrow>
            UZ (dynamic option v) iveg c =
              Finite (u + (spec_drainageTerm v ilanduse c + spec_percolationTerm v c) * M3toMM v c
                            / SoilFraction v iveg c))
       \<and> (SoilFraction v iveg c = 0 \<longrightarrow> UZ (dynamic option v) iveg c = UZ v iveg c)"
proof -
  let ?q = "(spec_drainageTerm v ilanduse c + spec_percolationTerm v c) * M3toMM v c"
  have pos: "UZ (dynamic option v) iveg c = np_add (UZ v iveg c) (float_div ?q (SoilFraction v iveg c))"
    if "0 < SoilFraction v iveg c"
  proof -
    have "UZ_increment v iveg ilanduse c = float_div ?q (SoilFraction v iveg c)"
      using that
      by (simp add: UZ_increment_def np_where_def np_divide_def drainageTerm_eq percolationTerm_eq)
    then show ?thesis by (simp add: dynamic_UZ [OF assms])
  qed
  have exact: "UZ (dynamic option v) iveg c = Finite (u + ?q / SoilFraction v iveg c)"
    if "0 < SoilFraction v iveg c" and "UZ v iveg c = Finite u"
      and "\<bar>?q / SoilFraction v iveg c\<bar> \<le> float_max"
  proof -
    have "- float_max \<le> ?q / SoilFraction v iveg c" and "?q / SoilFraction v iveg c \<le> float_max"
      using that(3) by linarith+
    with that(1) have "float_div ?q (SoilFraction v iveg c) = Finite (?q / SoilFraction v iveg c)"
      by (intro float_div_Finite) auto
    with pos [OF that(1)] that(2) show ?thesis by simp
  qed
  have zero: "UZ (dynamic option v) iveg c = UZ v iveg c" if "SoilFraction v iveg c = 0"
  proof -
    have "UZ_increment v iveg ilanduse c = Finite 0"
      using that by (simp add: UZ_increment_def np_where_def)
    then show ?thesis by (simp add: dynamic_UZ [OF assms] np_add_zero)
  qed
  from pos exact zero show ?thesis by blast
qed

text \<open>
  Planting on day 100 and harvest on day 200. Day 150 lies in the growth window
  \<open>[100, 180)\<close>: the percolation of 1000 m3 is 2 mm over a soil fraction of 0.5 and the
  store goes from 7 to 9. Day 195 lies in the drainage window \<open>[190, 200)\<close>: the drainage
  of 2000 m3 is 4 mm and the store goes to 11. On day 185, between the two windows, and
  with a soil fraction of zero, it stays at 7. With a soil fraction of \<open>tiny\<close> the
  quotient overflows and the store holds +inf.
\<close>

theorem upper_zone_update_witness:
  "riceIrrigation on
   \<and> get_landuse_and_indexes_from_vegetation_GLOBAL (scenario 150 100 200) ''Rainfed_prescribed''
       = (0, 0, 0)
   \<and> 0 < SoilFraction (scenario 150 100 200) 0 0
   \<and> UZ (scenario 150 100 200) 0 0 = Finite 7
   \<and> UZ (dynamic on (scenario 150 100 200)) 0 0 = Finite 9
   \<and> UZ (dynamic on (scenario 195 100 200)) 0 0 = Finite 11
   \<and> UZ (dynamic on (scenario 185 100 200)) 0 0 = Finite 7
   \<and> SoilFraction ((scenario 195 100 200)\<lparr>SoilFraction := veg_full 0\<rparr>) 0 0 = 0
   \<and> UZ (dynamic on ((scenario 195 100 200)\<lparr>SoilFraction := veg_full 0\<rparr>)) 0 0 = Finite 7
   \<and> 0 < SoilFraction ((scenario 150 100 200)\<lparr>SoilFraction := veg_full tiny\<rparr>) 0 0
   \<and> UZ (dynamic on ((scenario 150 100 200)\<lparr>SoilFraction := veg_full tiny\<rparr>)) 0 0 = PosInf"
  using upper_zone_update
          [where option = on and v = "scenario 150 100 200" and iveg = 0 and ilanduse = 0
             and k = 0 and c = 0 and u = 7]
        upper_zone_update
          [where option = on and v = "scenario 195 100 200" and iveg = 0 and ilanduse = 0
             and k = 0 and c = 0 and u = 7]
        upper_zone_update
          [where option = on and v = "scenario 185 100 200" and iveg = 0 and ilanduse = 0
             and k = 0 and c = 0 and u = 7]
        upper_zone_update
          [where option = on and v = "(scenario 195 100 200)\<lparr>SoilFraction := veg_full 0\<rparr>"
             and iveg = 0 and ilanduse = 0 and k = 0 and c = 0 and u = 7]
        upper_zone_update
          [where option = on and v = "(scenario 150 100 200)\<lparr>SoilFraction := veg_full tiny\<rparr>"
             and iveg = 0 and ilanduse = 0 and k = 0 and c = 0 and u = 7]
  by (simp add: spec_defs scenario_defs float_div_moderate float_div_tiny tiny_pos)

subsection \<open>Start without water-use accounting\<close>

text \<open>
  Claim C3. When \<open>riceIrrigation\<close> is on and \<open>wateruse\<close> is off, \<open>initial\<close> raises a
  \<open>LisfloodError\<close> whose message names both options. At the raise no map has been
  loaded: the list of \<open>loadmap\<close> calls is the one on entry and only the output array has
  been written. \<open>initial\<close> returns the error as its result; it has no second attempt.
\<close>

theorem initial_fails_without_wateruse:
  assumes "riceIrrigation option" and "\<not> wateruse option"
  shows "initial option loadmap (v, loaded) =
           Inl (LisfloodError msg,
                (v\<lparr>PaddyRiceWaterAbstractionFromSurfaceWaterM3 := in_zero\<rparr>, loaded))
         \<and> sublist ''riceIrrigation'' msg \<and> sublist ''wateruse'' msg"
  using assms by (simp add: initial_def msg_names_riceIrrigation msg_names_wateruse)

theorem initial_fails_without_wateruse_witness:
  "riceIrrigation rice_without_wateruse \<and> \<not> wateruse rice_without_wateruse
   \<and> initial rice_without_wateruse all_maps (scenario 1 100 200, []) =
       Inl (LisfloodError ''riceIrrigation module ON MUST HAVE wateruse option ON in setting file'',
            ((scenario 1 100 200)\<lparr>PaddyRiceWaterAbstractionFromSurfaceWaterM3 := in_zero\<rparr>, []))"
  using initial_fails_without_wateruse
          [where option = rice_without_wateruse and loadmap = all_maps
             and v = "scenario 1 100 200" and loaded = "[]"]
  by (simp add: rice_without_wateruse_def msg_def)

subsection \<open>Day wrap\<close>

text \<open>
  Claim C4, as the source has it. For every whole day in [1, 365] and offset 10 or 20, the
  day wrap that gives \<open>pl_20\<close>, \<open>pl_10\<close>, \<open>ha_20\<close> and \<open>ha_10\<close> returns a value in
  [0, 364]: day - offset when day \<ge> offset, and 365 + day - offset otherwise. A day equal
  to the offset gives 0, and 365 is never returned.
\<close>

theorem wrap_day_value:
  assumes "1 \<le> d" and "d \<le> 365" and "n \<in> {10, 20}" and "day c = real_of_int d"
  shows "wrap_day day (real_of_int n) c = real_of_int (if n \<le> d then d - n else 365 + d - n)
         \<and> 0 \<le> wrap_day day (real_of_int n) c \<and> wrap_day day (real_of_int n) c \<le> 364"
  using assms by (auto simp: wrap_day_def np_where_def Let_def)

text \<open>Planting on day 5: twenty days earlier is day 350 of the year before.\<close>

theorem wrap_day_value_witness:
  "(1::int) \<le> 5 \<and> (5::int) \<le> 365 \<and> (20::int) \<in> {10, 20} \<and> np_full 5 0 = real_of_int 5
   \<and> wrap_day (np_full 5) (real_of_int 20) 0 = 350"
  using wrap_day_value [where d = 5 and n = 20 and day = "np_full 5" and c = 0]
  by (simp add: np_full_def)

text \<open>
  A day equal to the offset is not wrapped: the result is 0, which is below 1 and is not
  365 + day - offset.
\<close>

theorem wrap_day_at_offset_is_zero:
  "wrap_day (np_full 10) 10 0 = 0
   \<and> \<not> (1 \<le> wrap_day (np_full 10) 10 0 \<and> wrap_day (np_full 10) 10 0 \<le> 365)
   \<and> wrap_day (np_full 10) 10 0 \<noteq> 365 + 10 - 10"
  by (simp add: wrap_day_def np_where_def np_full_def)

subsection \<open>Sign of the abstraction\<close>

text \<open>
  Claim C5, as the source has it. Only the evaporation residual is floored at 0; the other
  factors are taken as they come. In a cell where the moisture \<open>W1\<close> does not exceed the
  saturation \<open>WS1\<close> and the flooding rate, the percolation rate, the rice fraction,
  \<open>MMtoM3\<close> and \<open>DtDay\<close> are not negative, the output of a step with rice irrigation
  on is not negative, whatever \<open>EWRef\<close>, \<open>ESAct\<close> and \<open>Ta\<close> are.
\<close>

theorem abstraction_nonneg:
  assumes "riceIrrigation option"
    and "get_landuse_and_indexes_from_vegetation_GLOBAL v ''Rainfed_prescribed'' = (iveg, ilanduse, k)"
    and "W1 v iveg c \<le> WS1 v ilanduse c"
    and "0 \<le> RiceFlooding v c" and "0 \<le> RicePercolation v c"
    and "0 \<le> RiceFraction v c" and "0 \<le> MMtoM3 v c" and "0 \<le> DtDay v"
  shows "0 \<le> PaddyRiceWaterAbstractionFromSurfaceWaterM3 (dynamic option v) c"
proof -
  have "0 \<le> RiceSoilSaturationM3 v iveg ilanduse c"
    using assms by (intro RiceSoilSaturationM3_nonneg)
  moreover have "0 \<le> RiceFloodingM3 v iveg c"
    using assms by (intro RiceFloodingM3_nonneg)
  moreover have "0 \<le> RiceEvaporationM3 v iveg c"
    using assms by (intro RiceEvaporationM3_nonneg)
  moreover have "0 \<le> RicePercolationM3 v c"
    using assms by (intro RicePercolationM3_nonneg)
  ultimately show ?thesis
    by (simp add: dynamic_output [OF assms(1,2)])
qed

text \<open>
  Day 95 of the scenario, in the flooding window, with a reference evaporation of 0 below
  the soil evaporation and transpiration: the residual is floored and the output is the
  flooding demand, 5000.
\<close>

theorem abstraction_nonneg_witness:
  "riceIrrigation on
   \<and> get_landuse_and_indexes_from_vegetation_GLOBAL ((scenario 95 100 200)\<lparr>EWRef := np_full 0\<rparr>)
         ''Rainfed_prescribed'' = (0, 0, 0)
   \<and> W1 ((scenario 95 100 200)\<lparr>EWRef := np_full 0\<rparr>) 0 0
       \<le> WS1 ((scenario 95 100 200)\<lparr>EWRef := np_full 0\<rparr>) 0 0
   \<and> 0 \<le> RiceFlooding ((scenario 95 100 200)\<lparr>EWRef := np_full 0\<rparr>) 0
   \<and> 0 \<le> RicePercolation ((scenario 95 100 200)\<lparr>EWRef := np_full 0\<rparr>) 0
   \<and> 0 \<le> RiceFraction ((scenario 95 100 200)\<lparr>EWRef := np_full 0\<rparr>) 0
   \<and> 0 \<le> MMtoM3 ((scenario 95 100 200)\<lparr>EWRef := np_full 0\<rparr>) 0
   \<and> 0 \<le> DtDay ((scenario 95 100 200)\<lparr>EWRef := np_full 0\<rparr>)
   \<and> 0 \<le> PaddyRiceWaterAbstractionFromSurfaceWaterM3
             (dynamic on ((scenario 95 100 200)\<lparr>EWRef := np_full 0\<rparr>)) 0"
  using abstraction_nonneg
          [where option = on and v = "(scenario 95 100 200)\<lparr>EWRef := np_full 0\<rparr>"
             and iveg = 0 and ilanduse = 0 and k = 0 and c = 0]
  by (simp add: scenario_defs)

text \<open>
  The saturation term is not floored. Day 85 of the scenario with a moisture of 320 mm
  above the saturation of 300 mm: the output is 0.1 * (300 - 320) * 0.5 * 1000 = -1000.
\<close>

theorem abstraction_negative_above_saturation:
  "PaddyRiceWaterAbstractionFromSurfaceWaterM3
     (dynamic on ((scenario 85 100 200)\<lparr>W1 := veg_full 320\<rparr>)) 0 = - 1000
   \<and> \<not> 0 \<le> PaddyRiceWaterAbstractionFromSurfaceWaterM3
             (dynamic on ((scenario 85 100 200)\<lparr>W1 := veg_full 320\<rparr>)) 0"
  by (simp add: dynamic_def phase_defs marker_defs scenario_defs)

subsection \<open>Zero soil fraction\<close>

text \<open>
  Claim C6. In a cell where the soil fraction of the vegetation is zero, the quotient
  that numpy computes there is inf or nan, but \<open>np.where\<close> does not select it: the
  increment is exactly 0 and the step leaves the upper-zone entry of that cell as it was,
  so nothing that is not finite is stored.
\<close>

theorem zero_soil_fraction_adds_nothing:
  assumes "SoilFraction v iveg c = 0"
    and "get_landuse_and_indexes_from_vegetation_GLOBAL v ''Rainfed_prescribed'' = (iveg, ilanduse, k)"
  shows "np_divide (\<lambda>c. (RiceDrainageM3 v ilanduse c + RicePercolationM3 v c) * M3toMM v c)
                   (SoilFraction v iveg) c = NonFinite
         \<and> UZ_increment v iveg ilanduse c = Finite 0
         \<and> UZ (dynamic option v) iveg c = UZ v iveg c"
proof -
  have q: "np_divide (\<lambda>c. (RiceDrainageM3 v ilanduse c + RicePercolationM3 v c) * M3toMM v c)
                     (SoilFraction v iveg) c = NonFinite"
    using assms(1) by (simp add: np_divide_def float_div_def)
  have i: "UZ_increment v iveg ilanduse c = Finite 0"
    using assms(1) by (simp add: UZ_increment_def np_where_def)
  have "UZ (dynamic option v) iveg c = UZ v iveg c"
  proof (cases "riceIrrigation option")
    case True
    then show ?thesis by (simp add: dynamic_UZ [OF True assms(2)] i np_add_zero)
  next
    case False
    then show ?thesis by (simp add: dynamic_off)
  qed
  with q i show ?thesis by simp
qed

text \<open>Day 150 of the scenario, in the growth window, with no soil under the vegetation.\<close>

theorem zero_soil_fraction_adds_nothing_witness:
  "SoilFraction ((scenario 150 100 200)\<lparr>SoilFraction := veg_full 0\<rparr>) 0 0 = 0
   \<and> get_landuse_and_indexes_from_vegetation_GLOBAL
        ((scenario 150 100 200)\<lparr>SoilFraction := veg_full 0\<rparr>) ''Rainfed_prescribed'' = (0, 0, 0)
   \<and> UZ_increment ((scenario 150 100 200)\<lparr>SoilFraction := veg_full 0\<rparr>) 0 0 0 = Finite 0
   \<and> UZ (dynamic on ((scenario 150 100 200)\<lparr>SoilFraction := veg_full 0\<rparr>)) 0 0 = Finite 7"
  using zero_soil_fraction_adds_nothing
          [where option = on and v = "(scenario 150 100 200)\<lparr>SoilFraction := veg_full 0\<rparr>"
             and iveg = 0 and ilanduse = 0 and k = 0 and c = 0]
  by (simp add: scenario_defs)

subsection \<open>Sign of the upper-zone increment\<close>

text \<open>
  Claim C7, as the source has it. The increment is a quotient of products of the inputs
  and is not floored. In a cell where the field capacity \<open>WFC1\<close> does not exceed the
  saturation \<open>WS1\<close> and the percolation rate, the rice fraction, \<open>MMtoM3\<close>, \<open>DtDay\<close> and
  \<open>M3toMM\<close> are not negative, what a step with rice irrigation on adds to the
  upper-zone entry is not negative: it is a number that is at least 0, or +inf where the
  quotient overflows. An entry that holds a number is then never below that number after
  the step.
\<close>

theorem upper_zone_increment_nonneg:
  assumes "riceIrrigation option"
    and "get_landuse_and_indexes_from_vegetation_GLOBAL v ''Rainfed_prescribed'' = (iveg, ilanduse, k)"
    and "WFC1 v ilanduse c \<le> WS1 v ilanduse c"
    and "0 \<le> RicePercolation v c"
    and "0 \<le> RiceFraction v c" and "0 \<le> MMtoM3 v c" and "0 \<le> DtDay v" and "0 \<le> M3toMM v c"
  shows "UZ (dynamic option v) iveg c = np_add (UZ v iveg c) (UZ_increment v iveg ilanduse c)
         \<and> ((\<exists>x. UZ_increment v iveg ilanduse c = Finite x \<and> 0 \<le> x)
              \<or> UZ_increment v iveg ilanduse c = PosInf)
         \<and> (UZ v iveg c = Finite u \<longrightarrow>
              (\<exists>u'. UZ (dynamic option v) iveg c = Finite u' \<and> u \<le> u')
              \<or> UZ (dynamic option v) iveg c = PosInf)"
proof -
  have d: "0 \<le> RiceDrainageM3 v ilanduse c"
    using assms by (intro RiceDrainageM3_nonneg)
  have p: "0 \<le> RicePercolationM3 v c"
    using assms by (intro RicePercolationM3_nonneg)
  have n: "0 \<le> (RiceDrainageM3 v ilanduse c + RicePercolationM3 v c) * M3toMM v c"
    using d p assms(8) by simp
  have i: "(\<exists>x. UZ_increment v iveg ilanduse c = Finite x \<and> 0 \<le> x)
           \<or> UZ_increment v iveg ilanduse c = PosInf"
  proof (cases "0 < SoilFraction v iveg c")
    case True
    then show ?thesis
      using float_div_nonneg [OF n True]
      by (simp add: UZ_increment_def np_where_def np_divide_def)
  next
    case False
    then show ?thesis by (simp add: UZ_increment_def np_where_def)
  qed
  have s: "UZ (dynamic option v) iveg c = np_add (UZ v iveg c) (UZ_increment v iveg ilanduse c)"
    by (rule dynamic_UZ [OF assms(1,2)])
  have "(\<exists>u'. UZ (dynamic option v) iveg c = Finite u' \<and> u \<le> u')
        \<or> UZ (dynamic option v) iveg c = PosInf" if "UZ v iveg c = Finite u"
    using np_add_Finite_nonneg [OF i, of u] that by (simp add: s)
  with s i show ?thesis by blast
qed

text \<open>
  Day 150 of the scenario: the percolation of 1000 m3 adds 2 mm to the store. With a
  soil fraction of \<open>tiny\<close> the same percolation gives a quotient beyond the float range,
  and the store holds +inf.
\<close>

theorem upper_zone_increment_nonneg_witness:
  "riceIrrigation on
   \<and> get_landuse_and_indexes_from_vegetation_GLOBAL (scenario 150 100 200) ''Rainfed_prescribed''
       = (0, 0, 0)
   \<and> WFC1 (scenario 150 100 200) 0 0 \<le> WS1 (scenario 150 100 200) 0 0
   \<and> 0 \<le> RicePercolation (scenario 150 100 200) 0
   \<and> 0 \<le> RiceFraction (scenario 150 100 200) 0
   \<and> 0 \<le> MMtoM3 (scenario 150 100 200) 0
   \<and> 0 \<le> DtDay (scenario 150 100 200)
   \<and> 0 \<le> M3toMM (scenario 150 100 200) 0
   \<and> UZ (scenario 150 100 200) 0 0 = Finite 7
   \<and> UZ_increment (scenario 150 100 200) 0 0 0 = Finite 2
   \<and> UZ (dynamic on (scenario 150 100 200)) 0 0 = Finite 9
   \<and> UZ_increment ((scenario 150 100 200)\<lparr>SoilFraction := veg_full tiny\<rparr>) 0 0 0 = PosInf
   \<and> UZ (dynamic on ((scenario 150 100 200)\<lparr>SoilFraction := veg_full tiny\<rparr>)) 0 0 = PosInf"
  using upper_zone_increment_nonneg
          [where option = on and v = "scenario 150 100 200" and iveg = 0 and ilanduse = 0
             and k = 0 and c = 0 and u = 7]
        upper_zone_increment_nonneg
          [where option = on and v = "(scenario 150 100 200)\<lparr>SoilFraction := veg_full tiny\<rparr>"
             and iveg = 0 and ilanduse = 0 and k = 0 and c = 0 and u = 7]
  by (simp add: UZ_increment_def np_divide_def float_div_moderate float_div_tiny tiny_pos phase_defs marker_defs
        scenario_defs)

text \<open>
  Day 195 of the scenario, in the drainage window, with a field capacity of 320 mm above
  the saturation of 300 mm: the drainage term is -1000 m3 and the store goes from 7 down
  to 5.
\<close>

theorem upper_zone_decremented_above_saturation:
  "UZ ((scenario 195 100 200)\<lparr>WFC1 := veg_full 320\<rparr>) 0 0 = Finite 7
   \<and> UZ (dynamic on ((scenario 195 100 200)\<lparr>WFC1 := veg_full 320\<rparr>)) 0 0 = Finite 5
   \<and> UZ_increment ((scenario 195 100 200)\<lparr>WFC1 := veg_full 320\<rparr>) 0 0 0 = Finite (- 2)"
  by (simp add: dynamic_def UZ_increment_def np_divide_def float_div_moderate float_div_tiny tiny_pos phase_defs
        marker_defs scenario_defs)

subsection \<open>Inverted windows\<close>

text \<open>
  Claim C8. In a cell where a window's start is not below its end, the test
  \<open>day \<ge> start \<and> day < end\<close> fails on every calendar day, and the phase array of that
  window is zero there on every day: the saturation array when \<open>pl_20 \<ge> pl_10\<close>, the
  flooding array when \<open>pl_10 \<ge> RicePlantingDay1\<close>, the evaporation and percolation
  arrays when \<open>RicePlantingDay1 \<ge> ha_20\<close>, the drainage array when
  \<open>ha_10 \<ge> RiceHarvestDay1\<close>.
\<close>

theorem inverted_window_is_empty:
  "(lo \<ge> hi \<longrightarrow> \<not> (d \<ge> lo \<and> d < (hi::real)))
   \<and> (pl_20 v c \<ge> pl_10 v c \<longrightarrow>
        RiceSoilSaturationM3 (v\<lparr>CalendarDay := day\<rparr>) iveg ilanduse c = 0)
   \<and> (pl_10 v c \<ge> RicePlantingDay1 v c \<longrightarrow> RiceFloodingM3 (v\<lparr>CalendarDay := day\<rparr>) iveg c = 0)
   \<and> (RicePlantingDay1 v c \<ge> ha_20 v c \<longrightarrow>
        RiceEvaporationM3 (v\<lparr>CalendarDay := day\<rparr>) iveg c = 0
        \<and> RicePercolationM3 (v\<lparr>CalendarDay := day\<rparr>) c = 0)
   \<and> (ha_10 v c \<ge> RiceHarvestDay1 v c \<longrightarrow>
        RiceDrainageM3 (v\<lparr>CalendarDay := day\<rparr>) ilanduse c = 0)"
  by (simp add: phase_defs pl_20_def pl_10_def ha_20_def ha_10_def)

text \<open>
  Planting on day 15 gives the saturation window \<open>[360, 5)\<close>, planting on day 5 the
  flooding window \<open>[360, 5)\<close>, planting on day 330 with harvest on day 90 the growth
  window \<open>[330, 70)\<close>, harvest on day 5 the drainage window \<open>[360, 5)\<close>.
\<close>

theorem inverted_window_is_empty_witness:
  "(360::real) \<ge> 5 \<and> \<not> ((362::real) \<ge> 360 \<and> (362::real) < 5)
   \<and> pl_20 (scenario 1 15 200) 0 \<ge> pl_10 (scenario 1 15 200) 0
   \<and> RiceSoilSaturationM3 ((scenario 1 15 200)\<lparr>CalendarDay := np_full 362\<rparr>) 0 0 0 = 0
   \<and> pl_10 (scenario 1 5 200) 0 \<ge> RicePlantingDay1 (scenario 1 5 200) 0
   \<and> RiceFloodingM3 ((scenario 1 5 200)\<lparr>CalendarDay := np_full 362\<rparr>) 0 0 = 0
   \<and> RicePlantingDay1 (scenario 1 330 90) 0 \<ge> ha_20 (scenario 1 330 90) 0
   \<and> RiceEvaporationM3 ((scenario 1 330 90)\<lparr>CalendarDay := np_full 340\<rparr>) 0 0 = 0
   \<and> RicePercolationM3 ((scenario 1 330 90)\<lparr>CalendarDay := np_full 340\<rparr>) 0 = 0
   \<and> ha_10 (scenario 1 100 5) 0 \<ge> RiceHarvestDay1 (scenario 1 100 5) 0
   \<and> RiceDrainageM3 ((scenario 1 100 5)\<lparr>CalendarDay := np_full 362\<rparr>) 0 0 = 0"
  using inverted_window_is_empty
          [where lo = 360 and hi = 5 and d = 362 and v = "scenario 1 15 200" and c = 0
             and day = "np_full 362" and iveg = 0 and ilanduse = 0]
        inverted_window_is_empty
          [where lo = 360 and hi = 5 and d = 362 and v = "scenario 1 5 200" and c = 0
             and day = "np_full 362" and iveg = 0 and ilanduse = 0]
        inverted_window_is_empty
          [where lo = 360 and hi = 5 and d = 362 and v = "scenario 1 330 90" and c = 0
             and day = "np_full 340" and iveg = 0 and ilanduse = 0]
        inverted_window_is_empty
          [where lo = 360 and hi = 5 and d = 362 and v = "scenario 1 100 5" and c = 0
             and day = "np_full 362" and iveg = 0 and ilanduse = 0]
  by (simp add: marker_defs scenario_defs)

subsection \<open>Rice irrigation off\<close>

text \<open>
  Claim C9. With \<open>riceIrrigation\<close> off, \<open>initial\<close> calls \<open>loadmap\<close> not once and sets
  the output array to zero everywhere, and \<open>dynamic\<close> returns every state as it finds
  it, so that after any number of steps the output is still zero everywhere and no other
  variable, \<open>UZ\<close> among them, has changed.
\<close>

theorem off_loads_nothing_and_changes_nothing:
  assumes "\<not> riceIrrigation option"
  shows "initial option loadmap (v, loaded) =
           Inr (v\<lparr>PaddyRiceWaterAbstractionFromSurfaceWaterM3 := in_zero\<rparr>, loaded)
         \<and> dynamic option v' = v'
         \<and> (dynamic option ^^ n) (v\<lparr>PaddyRiceWaterAbstractionFromSurfaceWaterM3 := in_zero\<rparr>)
             = v\<lparr>PaddyRiceWaterAbstractionFromSurfaceWaterM3 := in_zero\<rparr>"
proof -
  have "dynamic option = id"
    using assms by (simp add: dynamic_off fun_eq_iff)
  then show ?thesis
    using assms by (simp add: initial_def)
qed

theorem off_loads_nothing_and_changes_nothing_witness:
  "\<not> riceIrrigation off
   \<and> initial off all_maps (scenario 150 100 200, []) =
       Inr ((scenario 150 100 200)\<lparr>PaddyRiceWaterAbstractionFromSurfaceWaterM3 := in_zero\<rparr>, [])
   \<and> dynamic off (scenario 150 100 200) = scenario 150 100 200
   \<and> (dynamic off ^^ 3)
       ((scenario 150 100 200)\<lparr>PaddyRiceWaterAbstractionFromSurfaceWaterM3 := in_zero\<rparr>)
       = (scenario 150 100 200)\<lparr>PaddyRiceWaterAbstractionFromSurfaceWaterM3 := in_zero\<rparr>"
  using off_loads_nothing_and_changes_nothing
          [where option = off and loadmap = all_maps and v = "scenario 150 100 200"
             and loaded = "[]" and v' = "scenario 150 100 200" and n = 3]
  by (simp add: off_def)

subsection \<open>Determinism\<close>




end
